theory Spec2Isabelle
  imports Complex_Main "HOL-Library.Word"
begin

section \<open>The air data module: sw/airborne/modules/air_data/air_data.c\<close>

text \<open>
  The module keeps one global record \<open>air_data\<close>, two file-local variables
  (\<open>qnh_set\<close> and the \<open>uint8_t\<close> counter \<open>baro_health_counter\<close>), binds three
  callbacks to the ABI event bus and reads and writes the vehicle state store of
  \<open>state.h\<close>. Every C function becomes a function from the globals to the globals.

  The C type \<open>float\<close> is idealised as \<^typ>\<open>real\<close>: arithmetic is exact, and neither
  rounding nor NaN nor infinities are modelled. \<open>uint8_t\<close> is \<^typ>\<open>8 word\<close>.
\<close>

type_synonym float = real

subsection \<open>What the module takes from other headers\<close>

text \<open>
  \<open>math/pprz_isa.h\<close> is not part of the sources at hand. Its three constants and two
  functions used by the module are parameters of the model, collected in one record.
\<close>

record pprz_isa =
  PPRZ_ISA_AIR_DENSITY :: float
  PPRZ_ISA_SEA_LEVEL_PRESSURE :: float
  PPRZ_ISA_SEA_LEVEL_TEMP :: float
  pprz_isa_ref_pressure_of_height_full :: "float \<Rightarrow> float \<Rightarrow> float"
  pprz_isa_height_of_pressure_full :: "float \<Rightarrow> float \<Rightarrow> float"

text \<open>
  Modelled from the spec: the macro \<open>Max\<close> of \<open>std.h\<close>, which is missing; the spec
  writes \<open>max(q, 0)\<close>. The comparison is spelled out as the conditional expression
  the macro expands to.
\<close>

definition Max_macro :: "float \<Rightarrow> float \<Rightarrow> float" where
  "Max_macro x y = (if x > y then x else y)"

text \<open>
  Modelled from the spec: the vehicle state store of \<open>state.h\<close>, which is missing.
  The spec names an airspeed scalar write, an altitude read and a
  global-position-fix-validity read; the three fields are what
  \<open>stateSetAirspeed_f\<close>, \<open>stateGetPositionLla_f()->alt\<close> and
  \<open>stateIsGlobalCoordinateValid\<close> write and read.
\<close>

record vehicle_state =
  global_coordinate_valid :: bool
  lla_alt :: float
  airspeed_f :: float

definition stateIsGlobalCoordinateValid :: "vehicle_state \<Rightarrow> bool" where
  "stateIsGlobalCoordinateValid st = global_coordinate_valid st"

definition stateGetPositionLla_f_alt :: "vehicle_state \<Rightarrow> float" where
  "stateGetPositionLla_f_alt st = lla_alt st"

definition stateSetAirspeed_f :: "float \<Rightarrow> vehicle_state \<Rightarrow> vehicle_state" where
  "stateSetAirspeed_f v st = st\<lparr>airspeed_f := v\<rparr>"

text \<open>
  Modelled from the spec: the ABI event bus of \<open>subsystems/abi.h\<close>, which is missing.
  The spec describes it as \<open>subscribe(topic, filterId, handler)\<close>, each subscription
  keyed by a source-filter identifier or "accept from any source", and a message
  delivering \<open>(sourceId, value)\<close> to the matching handlers. A handler is a function
  pointer; the three handlers of this module are the values of \<open>abi_callback\<close>.
\<close>

datatype abi_msg = BARO_ABS | BARO_DIFF | TEMPERATURE

datatype abi_filter = ABI_BROADCAST | ABI_SENDER "8 word"

datatype abi_callback = CB_pressure_abs | CB_pressure_diff | CB_temperature

record abi_event =
  ev_msg :: abi_msg
  ev_id :: abi_filter
  ev_cb :: abi_callback

subsection \<open>The data of the module\<close>

text \<open>
  Modelled from the spec: \<open>struct AirData\<close> of \<open>air_data.h\<close>, which is missing; the
  fields are those the source file reads and writes, under the names it uses.
\<close>

record AirData =
  pressure :: float
  differential :: float
  temperature :: float
  airspeed :: float
  tas_factor :: float
  qnh :: float
  amsl_baro :: float
  amsl_baro_valid :: bool
  calc_airspeed :: bool
  calc_qnh_once :: bool
  calc_tas_factor :: bool
  calc_amsl_baro :: bool

text \<open>
  The globals: \<open>air_data\<close>, the two static variables, the subscriptions held by the
  bus, and the vehicle state store.
\<close>

record globals =
  air_data :: AirData
  qnh_set :: bool
  baro_health_counter :: "8 word"
  abi_queue :: "abi_event list"
  state :: vehicle_state

text \<open>
  The compile-time macros of the file, each with the default its \<open>#ifndef\<close> gives.
\<close>

record config =
  AIR_DATA_BARO_ABS_ID :: abi_filter
  AIR_DATA_BARO_DIFF_ID :: abi_filter
  AIR_DATA_TEMPERATURE_ID :: abi_filter
  AIR_DATA_TAS_FACTOR :: float
  AIR_DATA_CALC_AIRSPEED :: bool
  AIR_DATA_CALC_TAS_FACTOR :: bool
  AIR_DATA_CALC_AMSL_BARO :: bool

definition default_config :: config where
  "default_config =
     \<lparr> AIR_DATA_BARO_ABS_ID = ABI_BROADCAST,
       AIR_DATA_BARO_DIFF_ID = ABI_BROADCAST,
       AIR_DATA_TEMPERATURE_ID = ABI_BROADCAST,
       AIR_DATA_TAS_FACTOR = 1.0,
       AIR_DATA_CALC_AIRSPEED = True,
       AIR_DATA_CALC_TAS_FACTOR = True,
       AIR_DATA_CALC_AMSL_BARO = False \<rparr>"

subsection \<open>Airspeed conversions\<close>

definition eas_from_dynamic_pressure :: "pprz_isa \<Rightarrow> float \<Rightarrow> float" where
  "eas_from_dynamic_pressure isa q =
     (let two_div_rho_0 = 2.0 / PPRZ_ISA_AIR_DENSITY isa
      in sqrt (Max_macro (q * two_div_rho_0) 0))"

definition get_tas_factor :: "pprz_isa \<Rightarrow> float \<Rightarrow> float \<Rightarrow> float" where
  "get_tas_factor isa p t =
     sqrt ((PPRZ_ISA_SEA_LEVEL_PRESSURE isa * (t + 274.15)) /
           (p * PPRZ_ISA_SEA_LEVEL_TEMP isa))"

definition tas_from_eas :: "globals \<Rightarrow> float \<Rightarrow> float" where
  "tas_from_eas g eas = tas_factor (air_data g) * eas"

definition tas_from_dynamic_pressure :: "pprz_isa \<Rightarrow> globals \<Rightarrow> float \<Rightarrow> float" where
  "tas_from_dynamic_pressure isa g q = tas_from_eas g (eas_from_dynamic_pressure isa q)"

subsection \<open>The three callbacks\<close>

definition pressure_abs_cb :: "pprz_isa \<Rightarrow> 8 word \<Rightarrow> float \<Rightarrow> globals \<Rightarrow> globals" where
  "pressure_abs_cb isa sender_id p g =
     (let g1 = g\<lparr>air_data := (air_data g)\<lparr>pressure := p\<rparr>\<rparr>;
          g2 = (if calc_qnh_once (air_data g1) \<and> stateIsGlobalCoordinateValid (state g1)
                then
                  (let h = stateGetPositionLla_f_alt (state g1)
                   in g1\<lparr>air_data := (air_data g1)
                          \<lparr>qnh := pprz_isa_ref_pressure_of_height_full isa
                                    (pressure (air_data g1)) h / 100,
                           calc_qnh_once := False\<rparr>,
                         qnh_set := True\<rparr>)
                else g1);
          g3 = (if calc_amsl_baro (air_data g2) \<and> qnh_set g2
                then g2\<lparr>air_data := (air_data g2)
                          \<lparr>amsl_baro := pprz_isa_height_of_pressure_full isa
                                          (pressure (air_data g2)) (qnh (air_data g2) * 100),
                           amsl_baro_valid := True\<rparr>\<rparr>
                else g2)
      in g3\<lparr>baro_health_counter := 10\<rparr>)"

definition pressure_diff_cb :: "pprz_isa \<Rightarrow> 8 word \<Rightarrow> float \<Rightarrow> globals \<Rightarrow> globals" where
  "pressure_diff_cb isa sender_id p g =
     (let g1 = g\<lparr>air_data := (air_data g)\<lparr>differential := p\<rparr>\<rparr>
      in if calc_airspeed (air_data g1)
         then
           (let g2 = g1\<lparr>air_data := (air_data g1)
                         \<lparr>airspeed := tas_from_dynamic_pressure isa g1
                                        (differential (air_data g1))\<rparr>\<rparr>
            in g2\<lparr>state := stateSetAirspeed_f (airspeed (air_data g2)) (state g2)\<rparr>)
         else g1)"

definition temperature_cb :: "pprz_isa \<Rightarrow> 8 word \<Rightarrow> float \<Rightarrow> globals \<Rightarrow> globals" where
  "temperature_cb isa sender_id temp g =
     (let g1 = g\<lparr>air_data := (air_data g)\<lparr>temperature := temp\<rparr>\<rparr>
      in if calc_tas_factor (air_data g1) \<and> baro_health_counter g1 > 0
         then g1\<lparr>air_data := (air_data g1)
                   \<lparr>tas_factor := get_tas_factor isa (pressure (air_data g1))
                                    (temperature (air_data g1))\<rparr>\<rparr>
         else g1)"

subsection \<open>The bus\<close>

text \<open>
  Modelled from the spec: binding puts a subscription in front of those the bus holds;
  sending a message calls, in the order of the queue, every handler subscribed to the
  message whose filter accepts any source or names the sender.
\<close>

definition AbiBindMsg :: "abi_msg \<Rightarrow> abi_filter \<Rightarrow> abi_callback \<Rightarrow> globals \<Rightarrow> globals" where
  "AbiBindMsg msg sender_id cb g =
     g\<lparr>abi_queue := \<lparr>ev_msg = msg, ev_id = sender_id, ev_cb = cb\<rparr> # abi_queue g\<rparr>"

fun call_cb :: "pprz_isa \<Rightarrow> abi_callback \<Rightarrow> 8 word \<Rightarrow> float \<Rightarrow> globals \<Rightarrow> globals" where
  "call_cb isa CB_pressure_abs sender_id v g = pressure_abs_cb isa sender_id v g"
| "call_cb isa CB_pressure_diff sender_id v g = pressure_diff_cb isa sender_id v g"
| "call_cb isa CB_temperature sender_id v g = temperature_cb isa sender_id v g"

definition abi_accepts :: "abi_msg \<Rightarrow> 8 word \<Rightarrow> abi_event \<Rightarrow> bool" where
  "abi_accepts msg sender_id e =
     (ev_msg e = msg \<and> (ev_id e = ABI_BROADCAST \<or> ev_id e = ABI_SENDER sender_id))"

definition AbiSendMsg :: "pprz_isa \<Rightarrow> abi_msg \<Rightarrow> 8 word \<Rightarrow> float \<Rightarrow> globals \<Rightarrow> globals" where
  "AbiSendMsg isa msg sender_id v g =
     fold (\<lambda>e g'. if abi_accepts msg sender_id e then call_cb isa (ev_cb e) sender_id v g' else g')
       (abi_queue g) g"

subsection \<open>Initialisation, the accessor, the watchdog and the QNH setter\<close>

text \<open>
  The registration of the periodic telemetry message, compiled only under
  \<open>PERIODIC_TELEMETRY\<close>, writes none of the globals and is left out.
\<close>

definition air_data_init :: "config \<Rightarrow> globals \<Rightarrow> globals" where
  "air_data_init cfg g =
     (let g1 = g\<lparr>air_data := (air_data g)
                   \<lparr>calc_airspeed := AIR_DATA_CALC_AIRSPEED cfg,
                    calc_tas_factor := AIR_DATA_CALC_TAS_FACTOR cfg,
                    calc_amsl_baro := AIR_DATA_CALC_AMSL_BARO cfg,
                    tas_factor := AIR_DATA_TAS_FACTOR cfg,
                    calc_qnh_once := True,
                    amsl_baro_valid := False\<rparr>,
                 qnh_set := False,
                 baro_health_counter := 0\<rparr>;
          g2 = AbiBindMsg BARO_ABS (AIR_DATA_BARO_ABS_ID cfg) CB_pressure_abs g1;
          g3 = AbiBindMsg BARO_ABS (AIR_DATA_BARO_DIFF_ID cfg) CB_pressure_diff g2;
          g4 = AbiBindMsg TEMPERATURE (AIR_DATA_TEMPERATURE_ID cfg) CB_temperature g3
      in g4)"

definition air_data_get_amsl :: "globals \<Rightarrow> float" where
  "air_data_get_amsl g =
     (if amsl_baro_valid (air_data g) then amsl_baro (air_data g)
      else stateGetPositionLla_f_alt (state g))"

definition air_data_periodic :: "globals \<Rightarrow> globals" where
  "air_data_periodic g =
     (if baro_health_counter g > 0
      then g\<lparr>baro_health_counter := baro_health_counter g - 1\<rparr>
      else g\<lparr>air_data := (air_data g)\<lparr>amsl_baro_valid := False\<rparr>\<rparr>)"

definition air_data_SetQNH :: "float \<Rightarrow> globals \<Rightarrow> globals" where
  "air_data_SetQNH q g = g\<lparr>air_data := (air_data g)\<lparr>qnh := q\<rparr>, qnh_set := True\<rparr>"

subsection \<open>Executions\<close>

text \<open>
  An execution is a list of events applied from left to right: a call of one of the
  three callbacks, a watchdog tick, a call of the QNH setter, or a change of the vehicle
  state store by its owner.
\<close>

datatype event =
    Ev_pressure_abs "8 word" float
  | Ev_pressure_diff "8 word" float
  | Ev_temperature "8 word" float
  | Ev_periodic
  | Ev_SetQNH float
  | Ev_state vehicle_state

fun exec :: "pprz_isa \<Rightarrow> event \<Rightarrow> globals \<Rightarrow> globals" where
  "exec isa (Ev_pressure_abs sender_id p) g = pressure_abs_cb isa sender_id p g"
| "exec isa (Ev_pressure_diff sender_id p) g = pressure_diff_cb isa sender_id p g"
| "exec isa (Ev_temperature sender_id t) g = temperature_cb isa sender_id t g"
| "exec isa Ev_periodic g = air_data_periodic g"
| "exec isa (Ev_SetQNH q) g = air_data_SetQNH q g"
| "exec isa (Ev_state st) g = g\<lparr>state := st\<rparr>"

fun run :: "pprz_isa \<Rightarrow> event list \<Rightarrow> globals \<Rightarrow> globals" where
  "run isa [] g = g"
| "run isa (e # es) g = run isa es (exec isa e g)"

text \<open>
  The globals as the C runtime leaves them before \<open>air_data_init\<close>: objects of static
  storage are zero, the bus holds no subscription. The vehicle state store starts
  without a position fix.
\<close>

definition startup :: globals where
  "startup =
     \<lparr> air_data =
         \<lparr> pressure = 0, differential = 0, temperature = 0, airspeed = 0, tas_factor = 0,
           qnh = 0, amsl_baro = 0, amsl_baro_valid = False, calc_airspeed = False,
           calc_qnh_once = False, calc_tas_factor = False, calc_amsl_baro = False \<rparr>,
       qnh_set = False,
       baro_health_counter = 0,
       abi_queue = [],
       state = \<lparr> global_coordinate_valid = False, lla_alt = 0, airspeed_f = 0 \<rparr> \<rparr>"

text \<open>
  An instance of the parameters for concrete executions: the three constants of the
  standard atmosphere, and two stand-ins for the conversions, exact only at the
  reference level (the reference pressure is the pressure itself, the height is 0).
  The flags and the counter never depend on the two conversions.
\<close>

definition isa_sea_level :: pprz_isa where
  "isa_sea_level =
     \<lparr> PPRZ_ISA_AIR_DENSITY = 1.225,
       PPRZ_ISA_SEA_LEVEL_PRESSURE = 101325,
       PPRZ_ISA_SEA_LEVEL_TEMP = 288.15,
       pprz_isa_ref_pressure_of_height_full = (\<lambda>p h. p),
       pprz_isa_height_of_pressure_full = (\<lambda>p ref_p. 0) \<rparr>"

subsection \<open>Observing an execution\<close>

text \<open>
  The event that stands for a call of a handler by the bus.
\<close>

fun cb_event :: "abi_callback \<Rightarrow> 8 word \<Rightarrow> float \<Rightarrow> event" where
  "cb_event CB_pressure_abs sender_id v = Ev_pressure_abs sender_id v"
| "cb_event CB_pressure_diff sender_id v = Ev_pressure_diff sender_id v"
| "cb_event CB_temperature sender_id v = Ev_temperature sender_id v"

fun is_pressure_abs :: "event \<Rightarrow> bool" where
  "is_pressure_abs (Ev_pressure_abs sender_id p) = True"
| "is_pressure_abs e = False"

text \<open>
  \<open>falls flag isa es g\<close> counts the events of the execution \<open>es\<close> from \<open>g\<close> at which
  the flag is true before the event and false after it.
\<close>

fun falls :: "(globals \<Rightarrow> bool) \<Rightarrow> pprz_isa \<Rightarrow> event list \<Rightarrow> globals \<Rightarrow> nat" where
  "falls flag isa [] g = 0"
| "falls flag isa (e # es) g =
     (if flag g \<and> \<not> flag (exec isa e g) then 1 else 0) + falls flag isa es (exec isa e g)"

subsection \<open>Concrete executions\<close>

text \<open>
  The configuration that enables the barometric altitude, and the globals after
  initialisation under it, a call of the QNH setter and one absolute pressure sample.
\<close>

definition amsl_config :: config where
  "amsl_config = default_config\<lparr>AIR_DATA_CALC_AMSL_BARO := True\<rparr>"

definition baro_started :: globals where
  "baro_started =
     run isa_sea_level [Ev_SetQNH 1013.25, Ev_pressure_abs 0 101325]
       (air_data_init amsl_config startup)"

definition ten_ticks :: "event list" where
  "ten_ticks =
     [Ev_periodic, Ev_periodic, Ev_periodic, Ev_periodic, Ev_periodic,
      Ev_periodic, Ev_periodic, Ev_periodic, Ev_periodic, Ev_periodic]"

text \<open>The vehicle state store with a position fix at altitude 0.\<close>

definition fix_at_sea_level :: vehicle_state where
  "fix_at_sea_level = \<lparr> global_coordinate_valid = True, lla_alt = 0, airspeed_f = 0 \<rparr>"

section \<open>Properties\<close>

subsection \<open>Auxiliary facts\<close>

lemmas ops_defs = pressure_abs_cb_def pressure_diff_cb_def temperature_cb_def
  air_data_periodic_def air_data_SetQNH_def stateSetAirspeed_f_def
  stateIsGlobalCoordinateValid_def stateGetPositionLla_f_alt_def Let_def

lemmas concrete_defs = ops_defs air_data_init_def AbiBindMsg_def startup_def
  default_config_def amsl_config_def isa_sea_level_def baro_started_def ten_ticks_def
  fix_at_sea_level_def

lemma init_fields:
  "\<not> amsl_baro_valid (air_data (air_data_init cfg g0))"
  "\<not> qnh_set (air_data_init cfg g0)"
  "baro_health_counter (air_data_init cfg g0) = 0"
  "calc_qnh_once (air_data (air_data_init cfg g0))"
  "calc_amsl_baro (air_data (air_data_init cfg g0)) = AIR_DATA_CALC_AMSL_BARO cfg"
  "state (air_data_init cfg g0) = state g0"
  by (simp_all add: air_data_init_def AbiBindMsg_def Let_def)

text \<open>A message of the bus is an execution of handler calls.\<close>

lemma call_cb_exec: "call_cb isa cb sid v g = exec isa (cb_event cb sid v) g"
  by (cases cb) simp_all

lemma fold_send_run:
  "fold (\<lambda>e g'. if abi_accepts msg sid e then call_cb isa (ev_cb e) sid v g' else g') q g
     = run isa (map (\<lambda>e. cb_event (ev_cb e) sid v) (filter (abi_accepts msg sid) q)) g"
  by (induction q arbitrary: g) (simp_all add: call_cb_exec)

lemma AbiSendMsg_run:
  "AbiSendMsg isa msg sid v g
     = run isa (map (\<lambda>e. cb_event (ev_cb e) sid v)
         (filter (abi_accepts msg sid) (abi_queue g))) g"
  by (simp add: AbiSendMsg_def fold_send_run)

text \<open>What one event preserves.\<close>

lemma exec_valid_imp_qnh_set:
  "(amsl_baro_valid (air_data g) \<longrightarrow> qnh_set g) \<Longrightarrow>
   (amsl_baro_valid (air_data (exec isa e g)) \<longrightarrow> qnh_set (exec isa e g))"
  by (cases e) (simp_all add: ops_defs)

lemma exec_calc_amsl_baro:
  "calc_amsl_baro (air_data (exec isa e g)) = calc_amsl_baro (air_data g)"
  by (cases e) (simp_all add: ops_defs)

lemma exec_not_valid:
  "\<not> calc_amsl_baro (air_data g) \<Longrightarrow> \<not> amsl_baro_valid (air_data g) \<Longrightarrow>
   \<not> amsl_baro_valid (air_data (exec isa e g))"
  by (cases e) (simp_all add: ops_defs)

lemma exec_once_stays_false:
  "\<not> calc_qnh_once (air_data g) \<Longrightarrow> \<not> calc_qnh_once (air_data (exec isa e g))"
  by (cases e) (simp_all add: ops_defs)

lemma exec_once_falls:
  "calc_qnh_once (air_data g) \<Longrightarrow> \<not> calc_qnh_once (air_data (exec isa e g)) \<Longrightarrow>
   is_pressure_abs e \<and> stateIsGlobalCoordinateValid (state g)"
  by (cases e) (simp_all add: ops_defs split: if_splits)

text \<open>The same along an execution, by induction on the list of events.\<close>

lemma run_valid_imp_qnh_set:
  "(amsl_baro_valid (air_data g) \<longrightarrow> qnh_set g) \<Longrightarrow>
   (amsl_baro_valid (air_data (run isa es g)) \<longrightarrow> qnh_set (run isa es g))"
proof (induction es arbitrary: g)
  case Nil
  then show ?case by simp
next
  case (Cons e es)
  show ?case
    unfolding run.simps by (rule Cons.IH) (rule exec_valid_imp_qnh_set [OF Cons.prems])
qed

lemma run_not_valid:
  "\<not> calc_amsl_baro (air_data g) \<Longrightarrow> \<not> amsl_baro_valid (air_data g) \<Longrightarrow>
   \<not> amsl_baro_valid (air_data (run isa es g))"
proof (induction es arbitrary: g)
  case Nil
  then show ?case by simp
next
  case (Cons e es)
  have "\<not> calc_amsl_baro (air_data (exec isa e g))"
    using Cons.prems(1) by (simp add: exec_calc_amsl_baro)
  moreover have "\<not> amsl_baro_valid (air_data (exec isa e g))"
    using Cons.prems by (rule exec_not_valid)
  ultimately show ?case
    unfolding run.simps by (rule Cons.IH)
qed

lemma run_once_stays_false:
  "\<not> calc_qnh_once (air_data g) \<Longrightarrow> \<not> calc_qnh_once (air_data (run isa es g))"
  by (induction es arbitrary: g) (simp_all add: exec_once_stays_false)

lemma falls_once_zero:
  "\<not> calc_qnh_once (air_data g) \<Longrightarrow> falls (\<lambda>g. calc_qnh_once (air_data g)) isa es g = 0"
  by (induction es arbitrary: g) (simp_all add: exec_once_stays_false)

lemma falls_once_le1:
  "falls (\<lambda>g. calc_qnh_once (air_data g)) isa es g \<le> 1"
proof (induction es arbitrary: g)
  case Nil
  then show ?case by simp
next
  case (Cons e es)
  show ?case
  proof (cases "calc_qnh_once (air_data (exec isa e g))")
    case True
    then show ?thesis using Cons.IH [of "exec isa e g"] by simp
  next
    case False
    then show ?thesis by (simp add: falls_once_zero)
  qed
qed

lemma run_abs_keeps_qnh:
  "\<not> calc_qnh_once (air_data g) \<Longrightarrow>
   qnh (air_data (run isa (map (case_prod Ev_pressure_abs) sps) g)) = qnh (air_data g)"
proof (induction sps arbitrary: g)
  case Nil
  then show ?case by simp
next
  case (Cons sp sps)
  obtain sid p where sp: "sp = (sid, p)" by (cases sp)
  let ?g = "pressure_abs_cb isa sid p g"
  have "\<not> calc_qnh_once (air_data ?g)" and "qnh (air_data ?g) = qnh (air_data g)"
    using Cons.prems by (simp_all add: ops_defs)
  then show ?case using Cons.IH [of ?g] by (simp add: sp)
qed

text \<open>The watchdog counter is a \<open>uint8_t\<close>; above zero, decrementing it does not wrap.\<close>

lemma word8_pred: "(0::8 word) < c \<Longrightarrow> unat (c - 1) = unat c - 1"
  by (simp add: unat_minus_one word_gt_0)

lemma valid_run_no_abs:
  "\<forall>e\<in>set es. \<not> is_pressure_abs e \<Longrightarrow>
   amsl_baro_valid (air_data (run isa es g)) =
     (amsl_baro_valid (air_data g) \<and> count_list es Ev_periodic \<le> unat (baro_health_counter g))"
proof (induction es arbitrary: g)
  case Nil
  then show ?case by simp
next
  case (Cons e es)
  have ih: "amsl_baro_valid (air_data (run isa es (exec isa e g))) =
     (amsl_baro_valid (air_data (exec isa e g)) \<and>
      count_list es Ev_periodic \<le> unat (baro_health_counter (exec isa e g)))"
    using Cons.prems by (intro Cons.IH) simp
  from Cons.prems have ne: "\<not> is_pressure_abs e" by simp
  show ?case
  proof (cases e)
    case Ev_periodic
    show ?thesis
    proof (cases "0 < baro_health_counter g")
      case True
      then have "0 < unat (baro_health_counter g)" by (simp add: word_gt_0 unat_gt_0)
      with True ih Ev_periodic show ?thesis
        by (auto simp: air_data_periodic_def word8_pred)
    next
      case False
      then have "unat (baro_health_counter g) = 0" by (simp add: word_gt_0 unat_eq_zero)
      with False ih Ev_periodic show ?thesis
        by (auto simp: air_data_periodic_def)
    qed
  qed (use ne ih in \<open>simp_all add: ops_defs\<close>)
qed

lemma falls_valid_no_abs:
  "\<forall>e\<in>set es. \<not> is_pressure_abs e \<Longrightarrow>
   falls (\<lambda>g. amsl_baro_valid (air_data g)) isa es g =
     (if amsl_baro_valid (air_data g) \<and> unat (baro_health_counter g) < count_list es Ev_periodic
      then 1 else 0)"
proof (induction es arbitrary: g)
  case Nil
  then show ?case by simp
next
  case (Cons e es)
  have ih: "falls (\<lambda>g. amsl_baro_valid (air_data g)) isa es (exec isa e g) =
     (if amsl_baro_valid (air_data (exec isa e g)) \<and>
         unat (baro_health_counter (exec isa e g)) < count_list es Ev_periodic
      then 1 else 0)"
    using Cons.prems by (intro Cons.IH) simp
  from Cons.prems have ne: "\<not> is_pressure_abs e" by simp
  show ?case
  proof (cases e)
    case Ev_periodic
    show ?thesis
    proof (cases "0 < baro_health_counter g")
      case True
      then have "0 < unat (baro_health_counter g)" by (simp add: word_gt_0 unat_gt_0)
      with True ih Ev_periodic show ?thesis
        by (auto simp: air_data_periodic_def word8_pred)
    next
      case False
      then have "unat (baro_health_counter g) = 0" by (simp add: word_gt_0 unat_eq_zero)
      with False ih Ev_periodic show ?thesis
        by (auto simp: air_data_periodic_def)
    qed
  qed (use ne ih in \<open>simp_all add: ops_defs\<close>)
qed

subsection \<open>The airspeed conversions\<close>

text \<open>
  C9: for every dynamic pressure and every TAS factor held in the globals, the true
  airspeed from dynamic pressure is the TAS factor times the equivalent airspeed from
  dynamic pressure.
\<close>

theorem tas_from_dynamic_pressure_eq:
  "tas_from_dynamic_pressure isa g q
     = tas_factor (air_data g) * eas_from_dynamic_pressure isa q"
  by (simp add: tas_from_dynamic_pressure_def tas_from_eas_def)

text \<open>
  C8: for a positive standard air density, the equivalent airspeed from dynamic
  pressure is never negative, the argument of the square root is never negative, a
  negative dynamic pressure gives airspeed 0, and the conversion is monotonically
  non-decreasing in the dynamic pressure.
\<close>

theorem eas_from_dynamic_pressure_clamped_mono:
  assumes "0 < PPRZ_ISA_AIR_DENSITY isa"
  shows "0 \<le> eas_from_dynamic_pressure isa q \<and>
         0 \<le> Max_macro (q * (2.0 / PPRZ_ISA_AIR_DENSITY isa)) 0 \<and>
         (q < 0 \<longrightarrow> eas_from_dynamic_pressure isa q = 0) \<and>
         (q1 \<le> q2 \<longrightarrow> eas_from_dynamic_pressure isa q1 \<le> eas_from_dynamic_pressure isa q2)"
proof -
  let ?k = "2.0 / PPRZ_ISA_AIR_DENSITY isa"
  have k: "0 < ?k" using assms by simp
  have rad: "0 \<le> Max_macro (x * ?k) 0" for x
    by (simp add: Max_macro_def)
  have neg: "Max_macro (x * ?k) 0 = 0" if "x < 0" for x
  proof -
    have "x * ?k < 0" using that k by (rule mult_neg_pos)
    then show ?thesis by (simp add: Max_macro_def)
  qed
  have mono: "Max_macro (x * ?k) 0 \<le> Max_macro (y * ?k) 0" if "x \<le> y" for x y
  proof -
    have "0 \<le> ?k" using k by (rule less_imp_le)
    with that have "x * ?k \<le> y * ?k" by (rule mult_right_mono)
    then show ?thesis by (auto simp: Max_macro_def)
  qed
  show ?thesis
    using rad [of q] neg [of q] mono [of q1 q2]
    by (simp add: eas_from_dynamic_pressure_def Let_def)
qed

theorem eas_from_dynamic_pressure_clamped_mono_witness:
  "0 < PPRZ_ISA_AIR_DENSITY isa_sea_level \<and> (- 1 :: real) < 0 \<and> (100 :: real) \<le> 647 \<and>
   eas_from_dynamic_pressure isa_sea_level (- 1) = 0 \<and>
   eas_from_dynamic_pressure isa_sea_level 100 \<le> eas_from_dynamic_pressure isa_sea_level 647"
proof -
  have d: "0 < PPRZ_ISA_AIR_DENSITY isa_sea_level"
    by (simp add: isa_sea_level_def)
  show ?thesis
    using d eas_from_dynamic_pressure_clamped_mono [OF d, of "- 1" 100 647]
    by simp
qed

subsection \<open>The accessor, the watchdog tick and the QNH setter\<close>

text \<open>
  C6: the accessor returns \<open>amsl_baro\<close> when \<open>amsl_baro_valid\<close> is true and otherwise
  the altitude read from the vehicle state store; after initialisation, before any
  sample, \<open>amsl_baro_valid\<close> is false and the accessor returns the altitude of the
  store.
\<close>

theorem air_data_get_amsl_fallback:
  "(amsl_baro_valid (air_data g) \<longrightarrow> air_data_get_amsl g = amsl_baro (air_data g)) \<and>
   (\<not> amsl_baro_valid (air_data g) \<longrightarrow>
      air_data_get_amsl g = stateGetPositionLla_f_alt (state g)) \<and>
   \<not> amsl_baro_valid (air_data (air_data_init cfg g0)) \<and>
   air_data_get_amsl (air_data_init cfg g0) = stateGetPositionLla_f_alt (state g0)"
  by (simp add: air_data_get_amsl_def init_fields)

theorem air_data_get_amsl_fallback_witness:
  "amsl_baro_valid (air_data baro_started) \<and>
   air_data_get_amsl baro_started = amsl_baro (air_data baro_started) \<and>
   \<not> amsl_baro_valid (air_data (air_data_init default_config startup)) \<and>
   air_data_get_amsl (air_data_init default_config startup)
     = stateGetPositionLla_f_alt (state (air_data_init default_config startup))"
proof -
  have v: "amsl_baro_valid (air_data baro_started)"
    by (simp add: concrete_defs)
  have n: "\<not> amsl_baro_valid (air_data (air_data_init default_config startup))"
    by (simp add: init_fields)
  show ?thesis
    using v n air_data_get_amsl_fallback [of baro_started default_config startup]
      air_data_get_amsl_fallback [of "air_data_init default_config startup" default_config startup]
    by (simp add: init_fields)
qed

text \<open>
  C7: one watchdog tick changes nothing but the watchdog counter and
  \<open>amsl_baro_valid\<close>: the sensor values, the derived values, \<open>qnh\<close>, the configuration
  flags and everything outside \<open>air_data\<close> but the counter are as before.
\<close>

theorem air_data_periodic_frame:
  "airspeed (air_data (air_data_periodic g)) = airspeed (air_data g) \<and>
   tas_factor (air_data (air_data_periodic g)) = tas_factor (air_data g) \<and>
   pressure (air_data (air_data_periodic g)) = pressure (air_data g) \<and>
   differential (air_data (air_data_periodic g)) = differential (air_data g) \<and>
   temperature (air_data (air_data_periodic g)) = temperature (air_data g) \<and>
   qnh (air_data (air_data_periodic g)) = qnh (air_data g) \<and>
   amsl_baro (air_data (air_data_periodic g)) = amsl_baro (air_data g) \<and>
   calc_airspeed (air_data (air_data_periodic g)) = calc_airspeed (air_data g) \<and>
   calc_qnh_once (air_data (air_data_periodic g)) = calc_qnh_once (air_data g) \<and>
   calc_tas_factor (air_data (air_data_periodic g)) = calc_tas_factor (air_data g) \<and>
   calc_amsl_baro (air_data (air_data_periodic g)) = calc_amsl_baro (air_data g) \<and>
   qnh_set (air_data_periodic g) = qnh_set g \<and>
   abi_queue (air_data_periodic g) = abi_queue g \<and>
   state (air_data_periodic g) = state g \<and>
   air_data_periodic g =
     g\<lparr>baro_health_counter := baro_health_counter (air_data_periodic g),
       air_data := (air_data g)
         \<lparr>amsl_baro_valid := amsl_baro_valid (air_data (air_data_periodic g))\<rparr>\<rparr>"
  by (simp add: air_data_periodic_def)

text \<open>
  C5: the QNH setter overwrites \<open>qnh\<close>, marks QNH known and leaves \<open>calc_qnh_once\<close>
  as it is; so when, after any further events, \<open>calc_qnh_once\<close> is still true and the
  store has a valid position fix, the next absolute pressure sample replaces \<open>qnh\<close> by
  the reference pressure computed from the sample and the altitude of the store,
  whatever value was set from outside.
\<close>

theorem air_data_SetQNH_keeps_calc_qnh_once:
  "qnh (air_data (air_data_SetQNH q g)) = q \<and>
   qnh_set (air_data_SetQNH q g) \<and>
   calc_qnh_once (air_data (air_data_SetQNH q g)) = calc_qnh_once (air_data g) \<and>
   (calc_qnh_once (air_data (run isa es (air_data_SetQNH q g))) \<and>
    stateIsGlobalCoordinateValid (state (run isa es (air_data_SetQNH q g))) \<longrightarrow>
      qnh (air_data (pressure_abs_cb isa sid p (run isa es (air_data_SetQNH q g))))
        = pprz_isa_ref_pressure_of_height_full isa p
            (stateGetPositionLla_f_alt (state (run isa es (air_data_SetQNH q g)))) / 100)"
proof -
  have "qnh (air_data (pressure_abs_cb isa sid p g'))
        = pprz_isa_ref_pressure_of_height_full isa p (stateGetPositionLla_f_alt (state g')) / 100"
    if "calc_qnh_once (air_data g')" and "stateIsGlobalCoordinateValid (state g')" for g'
    using that by (simp add: ops_defs)
  then show ?thesis
    by (simp add: air_data_SetQNH_def)
qed

theorem air_data_SetQNH_keeps_calc_qnh_once_witness:
  "calc_qnh_once (air_data (run isa_sea_level [Ev_periodic] (air_data_SetQNH 990
     (air_data_init default_config (startup\<lparr>state := fix_at_sea_level\<rparr>))))) \<and>
   stateIsGlobalCoordinateValid (state (run isa_sea_level [Ev_periodic] (air_data_SetQNH 990
     (air_data_init default_config (startup\<lparr>state := fix_at_sea_level\<rparr>))))) \<and>
   qnh (air_data (air_data_SetQNH 990
     (air_data_init default_config (startup\<lparr>state := fix_at_sea_level\<rparr>)))) = 990 \<and>
   qnh (air_data (pressure_abs_cb isa_sea_level 0 101325
     (run isa_sea_level [Ev_periodic] (air_data_SetQNH 990
       (air_data_init default_config (startup\<lparr>state := fix_at_sea_level\<rparr>)))))) = 1013.25"
proof -
  let ?init = "air_data_init default_config (startup\<lparr>state := fix_at_sea_level\<rparr>)"
  let ?later = "run isa_sea_level [Ev_periodic] (air_data_SetQNH 990 ?init)"
  have h: "calc_qnh_once (air_data ?later) \<and> stateIsGlobalCoordinateValid (state ?later)"
    by (simp add: concrete_defs)
  have a: "stateGetPositionLla_f_alt (state ?later) = 0"
    by (simp add: concrete_defs)
  show ?thesis
    using h a
      air_data_SetQNH_keeps_calc_qnh_once [of 990 ?init isa_sea_level "[Ev_periodic]" 0 101325]
    by (simp add: isa_sea_level_def)
qed

subsection \<open>The subscriptions\<close>

text \<open>
  C1: initialisation registers three subscriptions, but two of them are for the
  absolute pressure message: the handler for the differential pressure is bound to the
  message BARO_ABS, under the sender filter of the differential pressure. After
  initialisation of the zeroed globals under the default configuration a differential
  pressure message reaches no handler and changes nothing, and an absolute pressure
  message is stored both as the pressure and as the differential pressure.
\<close>

theorem air_data_init_binds_diff_cb_to_BARO_ABS:
  "abi_queue (air_data_init cfg g0) =
     [\<lparr>ev_msg = TEMPERATURE, ev_id = AIR_DATA_TEMPERATURE_ID cfg, ev_cb = CB_temperature\<rparr>,
      \<lparr>ev_msg = BARO_ABS, ev_id = AIR_DATA_BARO_DIFF_ID cfg, ev_cb = CB_pressure_diff\<rparr>,
      \<lparr>ev_msg = BARO_ABS, ev_id = AIR_DATA_BARO_ABS_ID cfg, ev_cb = CB_pressure_abs\<rparr>]
     @ abi_queue g0 \<and>
   AbiSendMsg isa_sea_level BARO_DIFF 1 647 (air_data_init default_config startup)
     = air_data_init default_config startup \<and>
   differential (air_data
     (AbiSendMsg isa_sea_level BARO_DIFF 1 647 (air_data_init default_config startup))) = 0 \<and>
   differential (air_data
     (AbiSendMsg isa_sea_level BARO_ABS 1 101325 (air_data_init default_config startup)))
     = 101325 \<and>
   pressure (air_data
     (AbiSendMsg isa_sea_level BARO_ABS 1 101325 (air_data_init default_config startup)))
     = 101325"
proof -
  have q: "abi_queue (air_data_init cfg g0) =
     [\<lparr>ev_msg = TEMPERATURE, ev_id = AIR_DATA_TEMPERATURE_ID cfg, ev_cb = CB_temperature\<rparr>,
      \<lparr>ev_msg = BARO_ABS, ev_id = AIR_DATA_BARO_DIFF_ID cfg, ev_cb = CB_pressure_diff\<rparr>,
      \<lparr>ev_msg = BARO_ABS, ev_id = AIR_DATA_BARO_ABS_ID cfg, ev_cb = CB_pressure_abs\<rparr>]
     @ abi_queue g0"
    by (simp add: air_data_init_def AbiBindMsg_def Let_def)
  have d: "AbiSendMsg isa_sea_level BARO_DIFF 1 647 (air_data_init default_config startup)
     = air_data_init default_config startup"
    by (simp add: AbiSendMsg_def abi_accepts_def concrete_defs)
  have a: "differential (air_data
       (AbiSendMsg isa_sea_level BARO_ABS 1 101325 (air_data_init default_config startup)))
       = 101325"
     "pressure (air_data
       (AbiSendMsg isa_sea_level BARO_ABS 1 101325 (air_data_init default_config startup)))
       = 101325"
    by (simp_all add: AbiSendMsg_def abi_accepts_def concrete_defs)
  have z: "differential (air_data (air_data_init default_config startup)) = 0"
    by (simp add: concrete_defs)
  show ?thesis
    using q a z by (simp only: d)
qed

subsection \<open>Validity of the barometric altitude\<close>

text \<open>
  C2, as the code has it: in every state reached from initialisation by callbacks,
  watchdog ticks, calls of the QNH setter and changes of the vehicle state store, if
  \<open>amsl_baro_valid\<close> is true then QNH has been set; the watchdog counter may be zero
  there, and then the next watchdog tick clears \<open>amsl_baro_valid\<close>.
\<close>

theorem amsl_baro_valid_imp_qnh_set:
  assumes "g = run isa es (air_data_init cfg g0)"
    and "amsl_baro_valid (air_data g)"
  shows "qnh_set g \<and>
         (baro_health_counter g = 0 \<longrightarrow> \<not> amsl_baro_valid (air_data (air_data_periodic g)))"
proof -
  have "amsl_baro_valid (air_data g) \<longrightarrow> qnh_set g"
    unfolding assms(1) by (rule run_valid_imp_qnh_set) (simp add: init_fields)
  with assms(2) show ?thesis
    by (simp add: air_data_periodic_def)
qed

theorem amsl_baro_valid_imp_qnh_set_witness:
  "amsl_baro_valid (air_data (run isa_sea_level ten_ticks baro_started)) \<and>
   qnh_set (run isa_sea_level ten_ticks baro_started) \<and>
   baro_health_counter (run isa_sea_level ten_ticks baro_started) = 0 \<and>
   \<not> amsl_baro_valid (air_data (air_data_periodic (run isa_sea_level ten_ticks baro_started)))"
proof -
  let ?es = "[Ev_SetQNH 1013.25, Ev_pressure_abs 0 101325] @ ten_ticks"
  have r: "run isa_sea_level ten_ticks baro_started
             = run isa_sea_level ?es (air_data_init amsl_config startup)"
    by (simp add: baro_started_def)
  have v: "amsl_baro_valid (air_data (run isa_sea_level ten_ticks baro_started))"
    by (simp add: concrete_defs)
  have c: "baro_health_counter (run isa_sea_level ten_ticks baro_started) = 0"
    by (simp add: concrete_defs)
  show ?thesis
    using v c amsl_baro_valid_imp_qnh_set [OF r v] by simp
qed

theorem amsl_baro_valid_with_counter_zero:
  "amsl_baro_valid (air_data (run isa_sea_level
      ([Ev_SetQNH 1013.25, Ev_pressure_abs 0 101325] @ ten_ticks)
      (air_data_init amsl_config startup))) \<and>
   \<not> (qnh_set (run isa_sea_level
      ([Ev_SetQNH 1013.25, Ev_pressure_abs 0 101325] @ ten_ticks)
      (air_data_init amsl_config startup)) \<and>
      baro_health_counter (run isa_sea_level
      ([Ev_SetQNH 1013.25, Ev_pressure_abs 0 101325] @ ten_ticks)
      (air_data_init amsl_config startup)) \<noteq> 0)"
  by (simp add: concrete_defs)

text \<open>
  C10: when the switch \<open>AIR_DATA_CALC_AMSL_BARO\<close> is off, as it is by default,
  \<open>amsl_baro_valid\<close> is false in every state reached from initialisation by callbacks,
  watchdog ticks, calls of the QNH setter and changes of the vehicle state store, and
  the accessor returns the altitude of the vehicle state store.
\<close>

theorem amsl_baro_never_valid_when_disabled:
  assumes "\<not> AIR_DATA_CALC_AMSL_BARO cfg"
    and "g = run isa es (air_data_init cfg g0)"
  shows "\<not> AIR_DATA_CALC_AMSL_BARO default_config \<and>
         \<not> amsl_baro_valid (air_data g) \<and>
         air_data_get_amsl g = stateGetPositionLla_f_alt (state g)"
proof -
  have "\<not> amsl_baro_valid (air_data g)"
    unfolding assms(2) using assms(1) by (intro run_not_valid) (simp_all add: init_fields)
  then show ?thesis
    by (simp add: air_data_get_amsl_def default_config_def)
qed

theorem amsl_baro_never_valid_when_disabled_witness:
  "\<not> AIR_DATA_CALC_AMSL_BARO default_config \<and>
   \<not> amsl_baro_valid (air_data (run isa_sea_level
       [Ev_SetQNH 1013.25, Ev_pressure_abs 0 101325, Ev_periodic]
       (air_data_init default_config startup))) \<and>
   air_data_get_amsl (run isa_sea_level
       [Ev_SetQNH 1013.25, Ev_pressure_abs 0 101325, Ev_periodic]
       (air_data_init default_config startup)) = 0"
proof -
  have d: "\<not> AIR_DATA_CALC_AMSL_BARO default_config"
    by (simp add: default_config_def)
  have s: "stateGetPositionLla_f_alt (state (run isa_sea_level
       [Ev_SetQNH 1013.25, Ev_pressure_abs 0 101325, Ev_periodic]
       (air_data_init default_config startup))) = 0"
    by (simp add: concrete_defs)
  show ?thesis
    using d s amsl_baro_never_valid_when_disabled [OF d refl, of isa_sea_level
      "[Ev_SetQNH 1013.25, Ev_pressure_abs 0 101325, Ev_periodic]" startup]
    by simp
qed

subsection \<open>The watchdog\<close>

text \<open>
  C3, as the code has it: from a state where \<open>amsl_baro_valid\<close> is true and the
  watchdog counter holds its healthy value 10, along an execution without an absolute
  pressure sample, \<open>amsl_baro_valid\<close> is true as long as at most 10 watchdog ticks have
  run and false from tick 11 on, with exactly one change from true to false, at tick
  11. An absolute pressure sample at any point sets the counter to 10 again, leaves a
  true \<open>amsl_baro_valid\<close> true, and makes it true when QNH is known and the
  computation of the barometric altitude is enabled.
\<close>

theorem watchdog_invalidates_at_tick_eleven:
  assumes "amsl_baro_valid (air_data g)"
    and "baro_health_counter g = 10"
    and "\<forall>e\<in>set es. \<not> is_pressure_abs e"
  shows "amsl_baro_valid (air_data (run isa es g)) = (count_list es Ev_periodic \<le> 10) \<and>
         falls (\<lambda>g. amsl_baro_valid (air_data g)) isa es g
           = (if 10 < count_list es Ev_periodic then 1 else 0) \<and>
         baro_health_counter (pressure_abs_cb isa sid p (run isa es g)) = 10 \<and>
         (amsl_baro_valid (air_data (run isa es g)) \<longrightarrow>
            amsl_baro_valid (air_data (pressure_abs_cb isa sid p (run isa es g)))) \<and>
         (calc_amsl_baro (air_data (run isa es g)) \<and> qnh_set (run isa es g) \<longrightarrow>
            amsl_baro_valid (air_data (pressure_abs_cb isa sid p (run isa es g))))"
proof -
  have c: "unat (baro_health_counter g) = 10"
    by (simp add: assms(2))
  have "amsl_baro_valid (air_data (run isa es g)) = (count_list es Ev_periodic \<le> 10)"
    using valid_run_no_abs [OF assms(3), of isa g] assms(1) c by simp
  moreover have "falls (\<lambda>g. amsl_baro_valid (air_data g)) isa es g
           = (if 10 < count_list es Ev_periodic then 1 else 0)"
    using falls_valid_no_abs [OF assms(3), of isa g] assms(1) c by simp
  moreover have "baro_health_counter (pressure_abs_cb isa sid p g') = 10" for g'
    by (simp add: ops_defs)
  moreover have "amsl_baro_valid (air_data g') \<longrightarrow>
      amsl_baro_valid (air_data (pressure_abs_cb isa sid p g'))" for g'
    by (simp add: ops_defs)
  moreover have "calc_amsl_baro (air_data g') \<and> qnh_set g' \<longrightarrow>
      amsl_baro_valid (air_data (pressure_abs_cb isa sid p g'))" for g'
    by (auto simp: ops_defs)
  ultimately show ?thesis
    by blast
qed

theorem watchdog_invalidates_at_tick_eleven_witness:
  "amsl_baro_valid (air_data baro_started) \<and>
   baro_health_counter baro_started = 10 \<and>
   amsl_baro_valid (air_data (run isa_sea_level ten_ticks baro_started)) \<and>
   \<not> amsl_baro_valid (air_data (run isa_sea_level (Ev_periodic # ten_ticks) baro_started)) \<and>
   falls (\<lambda>g. amsl_baro_valid (air_data g)) isa_sea_level (Ev_periodic # ten_ticks)
     baro_started = 1 \<and>
   amsl_baro_valid (air_data
     (pressure_abs_cb isa_sea_level 0 101325 (run isa_sea_level ten_ticks baro_started)))"
proof -
  have v: "amsl_baro_valid (air_data baro_started)"
    by (simp add: concrete_defs)
  have c: "baro_health_counter baro_started = 10"
    by (simp add: concrete_defs)
  have t: "\<forall>e\<in>set ten_ticks. \<not> is_pressure_abs e"
    by (simp add: ten_ticks_def)
  then have t': "\<forall>e\<in>set (Ev_periodic # ten_ticks). \<not> is_pressure_abs e"
    by simp
  have n: "count_list ten_ticks Ev_periodic = 10"
    by (simp add: ten_ticks_def)
  show ?thesis
    using v c n
      watchdog_invalidates_at_tick_eleven [OF v c t, of isa_sea_level 0 101325]
      watchdog_invalidates_at_tick_eleven [OF v c t', of isa_sea_level 0 101325]
    by simp
qed

theorem amsl_baro_valid_after_ten_ticks:
  "amsl_baro_valid (air_data baro_started) \<and>
   baro_health_counter baro_started = 10 \<and>
   length ten_ticks = 10 \<and>
   amsl_baro_valid (air_data (run isa_sea_level ten_ticks baro_started))"
  by (simp add: concrete_defs)

subsection \<open>The one-shot capture of QNH\<close>

text \<open>
  C4: along every execution from initialisation \<open>calc_qnh_once\<close> changes from true to
  false at most once; an event that changes it is an absolute pressure callback
  entered with a valid position fix in the store; once false it stays false. The
  callback writes \<open>qnh\<close> on the capture path exactly when it makes that change, and
  leaves \<open>qnh\<close> alone when \<open>calc_qnh_once\<close> is false. So two or more absolute pressure
  samples fed after initialisation with a valid fix change \<open>calc_qnh_once\<close> exactly
  once, and \<open>qnh\<close> is in the end what the first sample made it.
\<close>

theorem calc_qnh_once_fires_once:
  "falls (\<lambda>g. calc_qnh_once (air_data g)) isa es (air_data_init cfg g0) \<le> 1 \<and>
   (calc_qnh_once (air_data g) \<and> \<not> calc_qnh_once (air_data (exec isa e g)) \<longrightarrow>
      is_pressure_abs e \<and> stateIsGlobalCoordinateValid (state g)) \<and>
   (\<not> calc_qnh_once (air_data g) \<longrightarrow> \<not> calc_qnh_once (air_data (run isa es g))) \<and>
   (calc_qnh_once (air_data g) \<and> stateIsGlobalCoordinateValid (state g) \<longrightarrow>
      \<not> calc_qnh_once (air_data (pressure_abs_cb isa sid p g)) \<and>
      qnh (air_data (pressure_abs_cb isa sid p g))
        = pprz_isa_ref_pressure_of_height_full isa p (stateGetPositionLla_f_alt (state g)) / 100) \<and>
   (\<not> calc_qnh_once (air_data g) \<longrightarrow>
      qnh (air_data (pressure_abs_cb isa sid p g)) = qnh (air_data g)) \<and>
   (stateIsGlobalCoordinateValid (state g0) \<and> 2 \<le> length sps \<longrightarrow>
      falls (\<lambda>g. calc_qnh_once (air_data g)) isa (map (case_prod Ev_pressure_abs) sps)
        (air_data_init cfg g0) = 1 \<and>
      qnh (air_data (run isa (map (case_prod Ev_pressure_abs) sps) (air_data_init cfg g0)))
        = pprz_isa_ref_pressure_of_height_full isa (snd (hd sps))
            (stateGetPositionLla_f_alt (state g0)) / 100)"
proof -
  let ?once = "\<lambda>g. calc_qnh_once (air_data g)"
  have fire: "\<not> ?once (pressure_abs_cb isa sid' p' g') \<and>
      qnh (air_data (pressure_abs_cb isa sid' p' g'))
        = pprz_isa_ref_pressure_of_height_full isa p' (stateGetPositionLla_f_alt (state g')) / 100"
    if "?once g'" and "stateIsGlobalCoordinateValid (state g')" for sid' p' g'
    using that by (simp add: ops_defs)
  have keep: "qnh (air_data (pressure_abs_cb isa sid p g)) = qnh (air_data g)"
    if "\<not> ?once g"
    using that by (simp add: ops_defs)
  have feed: "falls ?once isa (map (case_prod Ev_pressure_abs) sps) (air_data_init cfg g0) = 1 \<and>
      qnh (air_data (run isa (map (case_prod Ev_pressure_abs) sps) (air_data_init cfg g0)))
        = pprz_isa_ref_pressure_of_height_full isa (snd (hd sps))
            (stateGetPositionLla_f_alt (state g0)) / 100"
    if valid_fix: "stateIsGlobalCoordinateValid (state g0)" and len: "2 \<le> length sps"
  proof -
    from len obtain sid1 p1 rest where sps: "sps = (sid1, p1) # rest"
      by (cases sps) auto
    let ?init = "air_data_init cfg g0"
    let ?first = "pressure_abs_cb isa sid1 p1 ?init"
    have f: "\<not> ?once ?first \<and> qnh (air_data ?first)
        = pprz_isa_ref_pressure_of_height_full isa p1 (stateGetPositionLla_f_alt (state g0)) / 100"
      using fire [of ?init sid1 p1] valid_fix by (simp add: init_fields)
    have "falls ?once isa (map (case_prod Ev_pressure_abs) rest) ?first = 0"
      using f by (simp add: falls_once_zero)
    moreover have "qnh (air_data (run isa (map (case_prod Ev_pressure_abs) rest) ?first))
        = qnh (air_data ?first)"
      using f by (simp add: run_abs_keeps_qnh)
    ultimately show ?thesis
      using f by (simp add: sps init_fields)
  qed
  show ?thesis
    using falls_once_le1 [of isa es "air_data_init cfg g0"]
      exec_once_falls [of g isa e] run_once_stays_false [of g isa es]
      fire [of g sid p] keep feed
    by blast
qed

theorem calc_qnh_once_fires_once_witness:
  "calc_qnh_once (air_data (air_data_init default_config (startup\<lparr>state := fix_at_sea_level\<rparr>))) \<and>
   \<not> calc_qnh_once (air_data (exec isa_sea_level (Ev_pressure_abs 0 101325)
       (air_data_init default_config (startup\<lparr>state := fix_at_sea_level\<rparr>)))) \<and>
   stateIsGlobalCoordinateValid (state (startup\<lparr>state := fix_at_sea_level\<rparr>)) \<and>
   (2::nat) \<le> length [(0 :: 8 word, 101325 :: real), (0, 95000)] \<and>
   falls (\<lambda>g. calc_qnh_once (air_data g)) isa_sea_level
     [Ev_pressure_abs 0 101325, Ev_pressure_abs 0 95000]
     (air_data_init default_config (startup\<lparr>state := fix_at_sea_level\<rparr>)) = 1 \<and>
   qnh (air_data (run isa_sea_level
     [Ev_pressure_abs 0 101325, Ev_pressure_abs 0 95000]
     (air_data_init default_config (startup\<lparr>state := fix_at_sea_level\<rparr>)))) = 1013.25"
proof -
  let ?start = "startup\<lparr>state := fix_at_sea_level\<rparr>"
  let ?init = "air_data_init default_config ?start"
  have o: "calc_qnh_once (air_data ?init)"
    by (simp add: init_fields)
  have n: "\<not> calc_qnh_once (air_data (exec isa_sea_level (Ev_pressure_abs 0 101325) ?init))"
    by (simp add: concrete_defs)
  have f: "stateIsGlobalCoordinateValid (state ?start)"
    by (simp add: stateIsGlobalCoordinateValid_def fix_at_sea_level_def)
  have l: "(2::nat) \<le> length [(0 :: 8 word, 101325 :: real), (0, 95000)]"
    by simp
  show ?thesis
    using o n f l
      calc_qnh_once_fires_once [of isa_sea_level "[]" default_config ?start ?init
        "Ev_pressure_abs 0 101325" 0 101325 "[(0, 101325), (0, 95000)]"]
    by (simp add: isa_sea_level_def stateGetPositionLla_f_alt_def
          stateIsGlobalCoordinateValid_def fix_at_sea_level_def init_fields)
qed

end
